theory Spec2Isabelle
  imports Main "HOL-Library.Sublist"
begin

section \<open>The digital\_ocean\_sshkey module\<close>

text \<open>
  A shallow embedding of \<^verbatim>\<open>cloud/digital_ocean/digital_ocean_sshkey.py\<close>: the class
  \<^verbatim>\<open>SSH\<close> with its class methods, and the function \<^verbatim>\<open>core\<close>. The remote account and
  the record of the calls sent to it are passed explicitly; \<^verbatim>\<open>module.exit_json\<close> and
  \<^verbatim>\<open>module.fail_json\<close> end the process, so each is a final result of \<^verbatim>\<open>core\<close>.
\<close>

subsection \<open>Data\<close>

text \<open>
  An \<^verbatim>\<open>SSH\<close> object holds the fields of one key of the provider's answer; the module
  reads \<^verbatim>\<open>name\<close> (in \<^verbatim>\<open>find\<close>) and \<^verbatim>\<open>id\<close> (in \<^verbatim>\<open>destroy\<close>), and \<^verbatim>\<open>to_json\<close> gives all
  of them back.
\<close>

record ssh_key =
  key_id :: int
  key_name :: string
  key_pub :: string

text \<open>
  \<^verbatim>\<open>module.params\<close>, as declared by the argument specification of \<^verbatim>\<open>main\<close>: a
  parameter that was not supplied is \<^verbatim>\<open>None\<close>; \<^verbatim>\<open>state\<close> has a default and is always
  a string.
\<close>

record params =
  p_state :: string
  p_api_token :: "string option"
  p_name :: "string option"
  p_id :: "int option"
  p_ssh_pub_key :: "string option"

type_synonym environ = "string \<rightharpoonup> string"

text \<open>The exception of the client library, carrying its message.\<close>

datatype DoError = DoError string

text \<open>The remote calls the module can send through its manager.\<close>

datatype call = All_ssh_keys | New_ssh_key string string | Destroy_ssh_key int



text \<open>
  The three methods of the client library's manager that the module calls. The library
  is not part of the module, so it is a parameter: each method takes the token the
  manager was set up with and the remote account \<open>'r\<close>, and either raises or answers.
  Listing reads the account; creating and destroying answer with the account they leave.
\<close>

record 'r DoManager =
  all_ssh_keys :: "string \<Rightarrow> 'r \<Rightarrow> DoError + ssh_key list"
  new_ssh_key :: "string \<Rightarrow> string \<Rightarrow> string \<Rightarrow> 'r \<Rightarrow> DoError + ssh_key \<times> 'r"
  destroy_ssh_key :: "string \<Rightarrow> int \<Rightarrow> 'r \<Rightarrow> DoError + 'r"

text \<open>The remote account together with the calls sent so far, oldest first.\<close>

record 'r world =
  remote :: 'r
  calls :: "call list"

text \<open>How \<^verbatim>\<open>core\<close> ends.\<close>

datatype result =
    Exit_json bool "ssh_key option" "string option"
  | Fail_json string
  | Raise DoError
  | Return_None

subsection \<open>The class SSH\<close>

definition list_all :: "'r DoManager \<Rightarrow> string \<Rightarrow> 'r world \<Rightarrow> (DoError + ssh_key list) \<times> 'r world" where
  "list_all m tok w =
     (all_ssh_keys m tok (remote w), w\<lparr>calls := calls w @ [All_ssh_keys]\<rparr>)"

text \<open>The loop of \<^verbatim>\<open>SSH.find\<close> over the listed keys.\<close>

fun scan :: "string \<Rightarrow> ssh_key list \<Rightarrow> ssh_key option" where
  "scan name [] = None"
| "scan name (key # keys) = (if key_name key = name then Some key else scan name keys)"

text \<open>
  \<^verbatim>\<open>SSH.find\<close>: \<^verbatim>\<open>not name\<close> holds of \<^verbatim>\<open>None\<close> and of the empty string, and then nothing
  is listed. The answer \<^verbatim>\<open>False\<close> is \<open>None\<close> here.
\<close>

definition find_ssh :: "'r DoManager \<Rightarrow> string \<Rightarrow> string option \<Rightarrow> 'r world \<Rightarrow> (DoError + ssh_key option) \<times> 'r world" where
  "find_ssh m tok name w =
     (case name of
        None \<Rightarrow> (Inr None, w)
      | Some n \<Rightarrow>
          if n = [] then (Inr None, w)
          else (case list_all m tok w of
                  (Inl e, w') \<Rightarrow> (Inl e, w')
                | (Inr keys, w') \<Rightarrow> (Inr (scan n keys), w')))"

definition add :: "'r DoManager \<Rightarrow> string \<Rightarrow> string \<Rightarrow> string \<Rightarrow> 'r world \<Rightarrow> (DoError + ssh_key) \<times> 'r world" where
  "add m tok name pub w =
     (case new_ssh_key m tok name pub (remote w) of
        Inl e \<Rightarrow> (Inl e, w\<lparr>calls := calls w @ [New_ssh_key name pub]\<rparr>)
      | Inr (key, r') \<Rightarrow> (Inr key, \<lparr>remote = r', calls = calls w @ [New_ssh_key name pub]\<rparr>))"

definition destroy :: "'r DoManager \<Rightarrow> string \<Rightarrow> ssh_key \<Rightarrow> 'r world \<Rightarrow> (DoError + bool) \<times> 'r world" where
  "destroy m tok key w =
     (case destroy_ssh_key m tok (key_id key) (remote w) of
        Inl e \<Rightarrow> (Inl e, w\<lparr>calls := calls w @ [Destroy_ssh_key (key_id key)]\<rparr>)
      | Inr r' \<Rightarrow> (Inr True, \<lparr>remote = r', calls = calls w @ [Destroy_ssh_key (key_id key)]\<rparr>))"

subsection \<open>The function core\<close>

text \<open>
  \<^verbatim>\<open>module.params[k]\<close> for the two keys \<^verbatim>\<open>getkeyordie\<close> is called with, \<^verbatim>\<open>'name'\<close> and
  \<^verbatim>\<open>'ssh_pub_key'\<close>, both declared with type \<^verbatim>\<open>str\<close>.
\<close>

definition str_param :: "params \<Rightarrow> string \<Rightarrow> string option" where
  "str_param ps k =
     (if k = ''name'' then p_name ps
      else if k = ''ssh_pub_key'' then p_ssh_pub_key ps
      else None)"

text \<open>\<^verbatim>\<open>getkeyordie\<close>: only \<^verbatim>\<open>None\<close> fails; \<open>Inl\<close> is the message of \<^verbatim>\<open>fail_json\<close>.\<close>

definition getkeyordie :: "params \<Rightarrow> string \<Rightarrow> string + string" where
  "getkeyordie ps k =
     (case str_param ps k of
        None \<Rightarrow> Inl (''Unable to load '' @ k)
      | Some v \<Rightarrow> Inr v)"

text \<open>
  The chain \<^verbatim>\<open>params['api_token'] or environ['DO_API_TOKEN'] or environ['DO_API_KEY']\<close>
  inside \<^verbatim>\<open>try\<close>: \<^verbatim>\<open>or\<close> goes on to its right operand when the left one is \<^verbatim>\<open>None\<close> or
  empty, the value of the last operand is the value of the chain whatever it is, and
  subscripting \<^verbatim>\<open>environ\<close> with a variable that is not set raises \<^verbatim>\<open>KeyError\<close>, whose
  message is the variable's name.
\<close>

definition environ_token :: "environ \<Rightarrow> string + string" where
  "environ_token env =
     (case env ''DO_API_TOKEN'' of
        None \<Rightarrow> Inl (''Unable to load '' @ ''DO_API_TOKEN'')
      | Some a \<Rightarrow>
          if a \<noteq> [] then Inr a
          else (case env ''DO_API_KEY'' of
                  None \<Rightarrow> Inl (''Unable to load '' @ ''DO_API_KEY'')
                | Some b \<Rightarrow> Inr b))"

definition api_token :: "params \<Rightarrow> environ \<Rightarrow> string + string" where
  "api_token ps env =
     (case p_api_token ps of
        None \<Rightarrow> environ_token env
      | Some t \<Rightarrow> if t \<noteq> [] then Inr t else environ_token env)"

text \<open>
  Python's \<^verbatim>\<open>in\<close> between two strings: \<^verbatim>\<open>('present')\<close> is a string, not a tuple, so
  \<^verbatim>\<open>state in ('present')\<close> asks whether \<^verbatim>\<open>state\<close> occurs in it as a substring.
\<close>

fun py_in :: "string \<Rightarrow> string \<Rightarrow> bool" where
  "py_in s [] = (s = [])"
| "py_in s (c # cs) = (prefix s (c # cs) \<or> py_in s cs)"

definition core :: "'r DoManager \<Rightarrow> params \<Rightarrow> environ \<Rightarrow> 'r world \<Rightarrow> result \<times> 'r world" where
  "core m ps env w =
     (case api_token ps env of
        Inl msg \<Rightarrow> (Fail_json msg, w)
      | Inr tok \<Rightarrow>
          (case getkeyordie ps ''name'' of
             Inl msg \<Rightarrow> (Fail_json msg, w)
           | Inr name \<Rightarrow>
               if py_in (p_state ps) ''present'' then
                 (case find_ssh m tok (Some name) w of
                    (Inl e, w1) \<Rightarrow> (Raise e, w1)
                  | (Inr (Some key), w1) \<Rightarrow> (Exit_json False (Some key) None, w1)
                  | (Inr None, w1) \<Rightarrow>
                      (case getkeyordie ps ''ssh_pub_key'' of
                         Inl msg \<Rightarrow> (Fail_json msg, w1)
                       | Inr pub \<Rightarrow>
                           (case add m tok name pub w1 of
                              (Inl e, w2) \<Rightarrow> (Raise e, w2)
                            | (Inr key, w2) \<Rightarrow> (Exit_json True (Some key) None, w2))))
               else if py_in (p_state ps) ''absent'' then
                 (case find_ssh m tok (Some name) w of
                    (Inl e, w1) \<Rightarrow> (Raise e, w1)
                  | (Inr None, w1) \<Rightarrow>
                      (Exit_json False None
                         (Some (''SSH key with the name of '' @ name @ '' is not found.'')), w1)
                  | (Inr (Some key), w1) \<Rightarrow>
                      (case destroy m tok key w1 of
                         (Inl e, w2) \<Rightarrow> (Raise e, w2)
                       | (Inr ok, w2) \<Rightarrow> (Exit_json True None None, w2)))
               else (Return_None, w)))"

subsection \<open>A reference account\<close>

text \<open>
  Modelled from the spec: the provider's service behind the client library, which is
  not part of the module. Listing answers with the account's keys in order; creating
  appends a key with a fresh identifier, the given name and the given key material,
  and answers with it; destroying removes the keys with the given identifier, and
  fails when there is none. The checks of a create request are left to the provider
  by the spec, and this account makes none.
\<close>

record account =
  inventory :: "ssh_key list"
  next_id :: int

definition mem_manager :: "account DoManager" where
  "mem_manager =
     \<lparr> all_ssh_keys = (\<lambda>tok a. Inr (inventory a)),
       new_ssh_key = (\<lambda>tok n k a.
         Inr (\<lparr>key_id = next_id a, key_name = n, key_pub = k\<rparr>,
              a\<lparr>inventory := inventory a @ [\<lparr>key_id = next_id a, key_name = n, key_pub = k\<rparr>],
                next_id := next_id a + 1\<rparr>)),
       destroy_ssh_key = (\<lambda>tok i a.
         if list_ex (\<lambda>k. key_id k = i) (inventory a)
         then Inr (a\<lparr>inventory := filter (\<lambda>k. key_id k \<noteq> i) (inventory a)\<rparr>)
         else Inl (DoError ''not found'')) \<rparr>"

text \<open>
  Modelled from the spec: the provider is an opaque remote service, and what it does
  with the name of a create request is its own affair. This second account is the
  reference account but for one thing: it stores a name without its leading spaces,
  so that the key it answers a create call with can bear another name than the one
  it was sent.
\<close>

definition strip_manager :: "account DoManager" where
  "strip_manager =
     \<lparr> all_ssh_keys = all_ssh_keys mem_manager,
       new_ssh_key = (\<lambda>tok n k a.
         new_ssh_key mem_manager tok (dropWhile (\<lambda>c. c = CHR '' '') n) k a),
       destroy_ssh_key = destroy_ssh_key mem_manager \<rparr>"

subsection \<open>The calls of one run\<close>


section \<open>Properties\<close>

subsection \<open>Auxiliary facts\<close>

lemma scan_Some: "scan n ks = Some k \<Longrightarrow> k \<in> set ks \<and> key_name k = n"
  by (induction ks) (auto split: if_splits)

lemma scan_None_iff: "scan n ks = None \<longleftrightarrow> (\<forall>k\<in>set ks. key_name k \<noteq> n)"
  by (induction ks) auto

text \<open>A match of the loop is the match with the least index.\<close>

lemma scan_first:
  "scan n ks = Some k \<Longrightarrow>
   \<exists>i<length ks. ks ! i = k \<and> key_name k = n \<and> (\<forall>j<i. key_name (ks ! j) \<noteq> n)"
proof (induction ks)
  case Nil
  then show ?case by simp
next
  case (Cons a ks)
  show ?case
  proof (cases "key_name a = n")
    case True
    with Cons.prems have "a = k" by simp
    with True show ?thesis by (intro exI[of _ 0]) simp
  next
    case False
    with Cons.prems have "scan n ks = Some k" by simp
    from Cons.IH[OF this] obtain i where i: "i < length ks" "ks ! i = k" "key_name k = n"
      "\<forall>j<i. key_name (ks ! j) \<noteq> n" by blast
    have "\<forall>j<Suc i. key_name ((a # ks) ! j) \<noteq> n"
      using False i(4) by (auto simp: less_Suc_eq_0_disj)
    with i show ?thesis by (intro exI[of _ "Suc i"]) simp
  qed
qed

lemma scan_at_first:
  "i < length ks \<Longrightarrow> key_name (ks ! i) = n \<Longrightarrow> \<forall>j<i. key_name (ks ! j) \<noteq> n \<Longrightarrow>
   scan n ks = Some (ks ! i)"
proof (induction ks arbitrary: i)
  case Nil
  then show ?case by simp
next
  case (Cons a ks)
  show ?case
  proof (cases i)
    case 0
    with Cons.prems show ?thesis by simp
  next
    case (Suc i')
    with Cons.prems have a: "key_name a \<noteq> n" by auto
    have "\<forall>j<i'. key_name (ks ! j) \<noteq> n"
    proof (intro allI impI)
      fix j assume "j < i'"
      then have "Suc j < i" using Suc by simp
      with Cons.prems(3) have "key_name ((a # ks) ! Suc j) \<noteq> n" by blast
      then show "key_name (ks ! j) \<noteq> n" by simp
    qed
    with Cons.IH[of i'] Cons.prems Suc have "scan n ks = Some (ks ! i')" by simp
    with a Suc show ?thesis by simp
  qed
qed

text \<open>The two values of \<^verbatim>\<open>state\<close> the argument specification lets through.\<close>

lemma state_present: "py_in ''present'' ''present''"
  by simp

lemma state_absent: "\<not> py_in ''absent'' ''present''" "py_in ''absent'' ''absent''"
  by simp_all

lemma core_present:
  assumes "p_state ps = ''present''" "api_token ps env = Inr tok" "p_name ps = Some n"
  shows "core m ps env w =
    (case find_ssh m tok (Some n) w of
       (Inl e, w1) \<Rightarrow> (Raise e, w1)
     | (Inr (Some key), w1) \<Rightarrow> (Exit_json False (Some key) None, w1)
     | (Inr None, w1) \<Rightarrow>
         (case p_ssh_pub_key ps of
            None \<Rightarrow> (Fail_json ''Unable to load ssh_pub_key'', w1)
          | Some pub \<Rightarrow>
              (case add m tok n pub w1 of
                 (Inl e, w2) \<Rightarrow> (Raise e, w2)
               | (Inr key, w2) \<Rightarrow> (Exit_json True (Some key) None, w2))))"
  using assms
  by (simp add: core_def getkeyordie_def str_param_def state_present
      split: option.splits sum.splits prod.splits)

lemma core_absent:
  assumes "p_state ps = ''absent''" "api_token ps env = Inr tok" "p_name ps = Some n"
  shows "core m ps env w =
    (case find_ssh m tok (Some n) w of
       (Inl e, w1) \<Rightarrow> (Raise e, w1)
     | (Inr None, w1) \<Rightarrow>
         (Exit_json False None (Some (''SSH key with the name of '' @ n @ '' is not found.'')), w1)
     | (Inr (Some key), w1) \<Rightarrow>
         (case destroy m tok key w1 of
            (Inl e, w2) \<Rightarrow> (Raise e, w2)
          | (Inr ok, w2) \<Rightarrow> (Exit_json True None None, w2)))"
  using assms
  by (simp add: core_def getkeyordie_def str_param_def state_absent)

lemma find_ssh_listed:
  "n \<noteq> [] \<Longrightarrow> all_ssh_keys m tok (remote w) = Inr keys \<Longrightarrow>
   find_ssh m tok (Some n) w = (Inr (scan n keys), w\<lparr>calls := calls w @ [All_ssh_keys]\<rparr>)"
  by (simp add: find_ssh_def list_all_def)

lemma find_ssh_empty: "find_ssh m tok (Some []) w = (Inr None, w)"
  by (simp add: find_ssh_def)

subsection \<open>Resolving the credential\<close>

lemma api_token_param:
  "p_api_token ps = Some t \<Longrightarrow> t \<noteq> [] \<Longrightarrow> api_token ps env = Inr t"
  by (simp add: api_token_def)

lemma api_token_first_variable:
  "p_api_token ps = None \<Longrightarrow> env ''DO_API_TOKEN'' = Some a \<Longrightarrow> a \<noteq> [] \<Longrightarrow>
   api_token ps env = Inr a"
  by (simp add: api_token_def environ_token_def)

text \<open>
  Claim C1: the credential is the \<^verbatim>\<open>api_token\<close> parameter when supplied, otherwise the
  first of \<^verbatim>\<open>DO_API_TOKEN\<close> and \<^verbatim>\<open>DO_API_KEY\<close> that is set, and resolution fails only
  when none of the three resolves; in particular it succeeds when only \<^verbatim>\<open>DO_API_KEY\<close>
  is set. The code does not do this: with no parameter and only \<^verbatim>\<open>DO_API_KEY\<close> set,
  reading \<^verbatim>\<open>DO_API_TOKEN\<close> raises and the module fails, the second variable unread.
\<close>

theorem api_token_only_second_variable_fails:
  "api_token \<lparr>p_state = ''present'', p_api_token = None, p_name = Some ''k'',
              p_id = None, p_ssh_pub_key = Some ''ssh-rsa AAAA''\<rparr>
             [''DO_API_KEY'' \<mapsto> ''T'']
   = Inl ''Unable to load DO_API_TOKEN''"
  by (simp add: api_token_def environ_token_def)

text \<open>
  Claim C10, as the code has it: an \<^verbatim>\<open>api_token\<close> parameter that is the empty string is
  treated exactly like an absent one, and \<^verbatim>\<open>DO_API_TOKEN\<close> set to the empty string is
  passed over for \<^verbatim>\<open>DO_API_KEY\<close>: the credential is then the value of \<^verbatim>\<open>DO_API_KEY\<close>,
  whatever it is, and resolution fails only when that variable is not set.
\<close>

theorem api_token_empty_parameter:
  "api_token (ps\<lparr>p_api_token := Some []\<rparr>) env = api_token (ps\<lparr>p_api_token := None\<rparr>) env \<and>
   (env ''DO_API_TOKEN'' = Some [] \<longrightarrow>
      api_token (ps\<lparr>p_api_token := None\<rparr>) env =
        (case env ''DO_API_KEY'' of
           None \<Rightarrow> Inl ''Unable to load DO_API_KEY''
         | Some b \<Rightarrow> Inr b))"
  by (simp add: api_token_def environ_token_def split: option.splits)

text \<open>An empty parameter and an empty first variable: the second variable is the credential.\<close>

theorem api_token_empty_parameter_witness:
  "api_token \<lparr>p_state = ''present'', p_api_token = Some [], p_name = Some ''k'',
              p_id = None, p_ssh_pub_key = None\<rparr>
             [''DO_API_TOKEN'' \<mapsto> [], ''DO_API_KEY'' \<mapsto> ''T'']
   = Inr ''T'' \<and>
   api_token \<lparr>p_state = ''present'', p_api_token = None, p_name = Some ''k'',
              p_id = None, p_ssh_pub_key = None\<rparr>
             [''DO_API_TOKEN'' \<mapsto> [], ''DO_API_KEY'' \<mapsto> ''T'']
   = Inr ''T''"
  using api_token_empty_parameter
    [of "\<lparr>p_state = ''present'', p_api_token = Some [], p_name = Some ''k'',
          p_id = None, p_ssh_pub_key = None\<rparr>"
        "[''DO_API_TOKEN'' \<mapsto> [], ''DO_API_KEY'' \<mapsto> ''T'']"]
  by simp

text \<open>
  Claim C10 as stated has every environment variable that is set to the empty string
  skipped. \<^verbatim>\<open>DO_API_KEY\<close> is the last operand of the chain and is not tested: set to the
  empty string it is the credential, and resolution does not fail.
\<close>

theorem api_token_empty_last_variable_counterexample:
  "api_token \<lparr>p_state = ''present'', p_api_token = None, p_name = Some ''k'',
              p_id = None, p_ssh_pub_key = None\<rparr>
             [''DO_API_TOKEN'' \<mapsto> [], ''DO_API_KEY'' \<mapsto> []]
   = Inr []"
  by (simp add: api_token_def environ_token_def)

subsection \<open>Looking a key up by name\<close>

text \<open>
  Claim C9: \<^verbatim>\<open>SSH.find\<close> answers with nothing when the name is absent or empty;
  otherwise, the keys being listed, it answers with the key of least index whose name
  is equal to the name asked for, as a string and character by character, and with
  nothing when no listed key has that name.
\<close>

theorem find_ssh_first_match:
  assumes "all_ssh_keys m tok (remote w) = Inr keys"
  shows "(name = None \<or> name = Some [] \<longrightarrow> find_ssh m tok name w = (Inr None, w)) \<and>
         (\<forall>n. name = Some n \<and> n \<noteq> [] \<longrightarrow>
            (\<exists>i<length keys. key_name (keys ! i) = n \<and> (\<forall>j<i. key_name (keys ! j) \<noteq> n) \<and>
               fst (find_ssh m tok name w) = Inr (Some (keys ! i))) \<or>
            ((\<forall>k\<in>set keys. key_name k \<noteq> n) \<and> fst (find_ssh m tok name w) = Inr None))"
proof (intro conjI allI impI)
  assume "name = None \<or> name = Some []"
  then show "find_ssh m tok name w = (Inr None, w)"
    by (auto simp: find_ssh_def)
next
  fix n assume n: "name = Some n \<and> n \<noteq> []"
  then have f: "fst (find_ssh m tok name w) = Inr (scan n keys)"
    using assms by (simp add: find_ssh_def list_all_def)
  show "(\<exists>i<length keys. key_name (keys ! i) = n \<and> (\<forall>j<i. key_name (keys ! j) \<noteq> n) \<and>
               fst (find_ssh m tok name w) = Inr (Some (keys ! i))) \<or>
            ((\<forall>k\<in>set keys. key_name k \<noteq> n) \<and> fst (find_ssh m tok name w) = Inr None)"
  proof (cases "scan n keys")
    case None
    then show ?thesis using f by (simp add: scan_None_iff)
  next
    case (Some k)
    from scan_first[OF Some] obtain i where "i < length keys" "keys ! i = k" "key_name k = n"
      "\<forall>j<i. key_name (keys ! j) \<noteq> n" by blast
    then show ?thesis using f Some by auto
  qed
qed

text \<open>
  Three keys, the first differing from the name asked for in the case of one letter,
  the other two both bearing it: the second key is the answer.
\<close>

theorem find_ssh_first_match_witness:
  "all_ssh_keys mem_manager ''T''
     \<lparr>inventory = [\<lparr>key_id = 1, key_name = ''Deploy'', key_pub = ''A''\<rparr>,
                   \<lparr>key_id = 2, key_name = ''deploy'', key_pub = ''B''\<rparr>,
                   \<lparr>key_id = 3, key_name = ''deploy'', key_pub = ''C''\<rparr>], next_id = 4\<rparr>
   = Inr [\<lparr>key_id = 1, key_name = ''Deploy'', key_pub = ''A''\<rparr>,
          \<lparr>key_id = 2, key_name = ''deploy'', key_pub = ''B''\<rparr>,
          \<lparr>key_id = 3, key_name = ''deploy'', key_pub = ''C''\<rparr>] \<and>
   fst (find_ssh mem_manager ''T'' (Some ''deploy'')
     \<lparr>remote = \<lparr>inventory = [\<lparr>key_id = 1, key_name = ''Deploy'', key_pub = ''A''\<rparr>,
                   \<lparr>key_id = 2, key_name = ''deploy'', key_pub = ''B''\<rparr>,
                   \<lparr>key_id = 3, key_name = ''deploy'', key_pub = ''C''\<rparr>], next_id = 4\<rparr>,
      calls = []\<rparr>)
   = Inr (Some \<lparr>key_id = 2, key_name = ''deploy'', key_pub = ''B''\<rparr>)"
  using find_ssh_first_match [of mem_manager "''T''"
     "\<lparr>remote = \<lparr>inventory = [\<lparr>key_id = 1, key_name = ''Deploy'', key_pub = ''A''\<rparr>,
                   \<lparr>key_id = 2, key_name = ''deploy'', key_pub = ''B''\<rparr>,
                   \<lparr>key_id = 3, key_name = ''deploy'', key_pub = ''C''\<rparr>], next_id = 4\<rparr>,
      calls = []\<rparr>"
     "[\<lparr>key_id = 1, key_name = ''Deploy'', key_pub = ''A''\<rparr>,
       \<lparr>key_id = 2, key_name = ''deploy'', key_pub = ''B''\<rparr>,
       \<lparr>key_id = 3, key_name = ''deploy'', key_pub = ''C''\<rparr>]" "Some ''deploy''"]
  by (simp add: find_ssh_def list_all_def mem_manager_def)

subsection \<open>Failures of configuration\<close>

lemmas run_defs =
  core_def api_token_def environ_token_def getkeyordie_def str_param_def
  find_ssh_def list_all_def add_def destroy_def mem_manager_def

text \<open>
  Claim C2, as the code has it. A missing credential ends the run in \<^verbatim>\<open>fail_json\<close>
  with no call sent; so does a missing \<^verbatim>\<open>name\<close>; a missing \<^verbatim>\<open>ssh_pub_key\<close> on the
  create path (state \<^verbatim>\<open>present\<close>, no listed key of the requested name) ends the run
  in \<^verbatim>\<open>fail_json\<close> after \<^verbatim>\<open>SSH.find\<close>, that is after the listing call when the name is
  not empty, and with no call when it is empty. And whatever the request, a run that
  ends in \<^verbatim>\<open>fail_json\<close> inside \<^verbatim>\<open>core\<close> has sent no create and no destroy call and
  leaves the remote account as it was: it has sent nothing, or the listing call only.
\<close>

theorem fail_json_before_mutation:
  "(api_token ps env = Inl msg \<longrightarrow> core m ps env w = (Fail_json msg, w)) \<and>
   (api_token ps env = Inr tok \<and> p_name ps = None \<longrightarrow>
      core m ps env w = (Fail_json ''Unable to load name'', w)) \<and>
   (p_state ps = ''present'' \<and> api_token ps env = Inr tok \<and> p_name ps = Some n \<and>
    p_ssh_pub_key ps = None \<and>
    all_ssh_keys m tok (remote w) = Inr keys \<and> (\<forall>k\<in>set keys. key_name k \<noteq> n) \<longrightarrow>
      core m ps env w =
        (Fail_json ''Unable to load ssh_pub_key'',
         w\<lparr>calls := calls w @ (if n = [] then [] else [All_ssh_keys])\<rparr>)) \<and>
   (core m ps env w = (Fail_json msg', w') \<longrightarrow>
      remote w' = remote w \<and>
      calls w' = calls w @
        (if isl (api_token ps env) \<or> p_name ps = None \<or> p_name ps = Some [] then []
         else [All_ssh_keys]))"
proof (intro conjI impI)
  assume "api_token ps env = Inl msg"
  then show "core m ps env w = (Fail_json msg, w)"
    by (simp add: core_def)
next
  assume "api_token ps env = Inr tok \<and> p_name ps = None"
  then show "core m ps env w = (Fail_json ''Unable to load name'', w)"
    by (simp add: core_def getkeyordie_def str_param_def)
next
  assume a: "p_state ps = ''present'' \<and> api_token ps env = Inr tok \<and> p_name ps = Some n \<and>
    p_ssh_pub_key ps = None \<and>
    all_ssh_keys m tok (remote w) = Inr keys \<and> (\<forall>k\<in>set keys. key_name k \<noteq> n)"
  then have s: "scan n keys = None" by (simp add: scan_None_iff)
  show "core m ps env w =
        (Fail_json ''Unable to load ssh_pub_key'',
         w\<lparr>calls := calls w @ (if n = [] then [] else [All_ssh_keys])\<rparr>)"
  proof (cases "n = []")
    case True
    then show ?thesis
      using a by (simp add: core_present [where tok = tok and n = n] find_ssh_empty)
  next
    case False
    then show ?thesis
      using a s by (simp add: core_present [where tok = tok and n = n] find_ssh_listed)
  qed
next
  assume "core m ps env w = (Fail_json msg', w')"
  then show "remote w' = remote w"
    by (auto simp: core_def find_ssh_def list_all_def add_def destroy_def getkeyordie_def
          str_param_def
        split: sum.splits option.splits if_splits prod.splits)
next
  assume "core m ps env w = (Fail_json msg', w')"
  then show "calls w' = calls w @
        (if isl (api_token ps env) \<or> p_name ps = None \<or> p_name ps = Some [] then []
         else [All_ssh_keys])"
    by (auto simp: core_def find_ssh_def list_all_def add_def destroy_def getkeyordie_def
          str_param_def
        split: sum.splits option.splits if_splits prod.splits)
qed

text \<open>
  Three requests against an empty account: one with no credential anywhere, one with
  no name, and a create request without key material.
\<close>

theorem fail_json_before_mutation_witness:
  "core mem_manager
     \<lparr>p_state = ''present'', p_api_token = None, p_name = Some ''deploy'',
      p_id = None, p_ssh_pub_key = Some ''ssh-rsa AAAA''\<rparr>
     Map.empty \<lparr>remote = \<lparr>inventory = [], next_id = 1\<rparr>, calls = []\<rparr>
   = (Fail_json ''Unable to load DO_API_TOKEN'',
      \<lparr>remote = \<lparr>inventory = [], next_id = 1\<rparr>, calls = []\<rparr>) \<and>
   core mem_manager
     \<lparr>p_state = ''present'', p_api_token = Some ''T'', p_name = None,
      p_id = Some 3, p_ssh_pub_key = Some ''ssh-rsa AAAA''\<rparr>
     Map.empty \<lparr>remote = \<lparr>inventory = [], next_id = 1\<rparr>, calls = []\<rparr>
   = (Fail_json ''Unable to load name'',
      \<lparr>remote = \<lparr>inventory = [], next_id = 1\<rparr>, calls = []\<rparr>) \<and>
   core mem_manager
     \<lparr>p_state = ''present'', p_api_token = Some ''T'', p_name = Some ''deploy'',
      p_id = None, p_ssh_pub_key = None\<rparr>
     Map.empty \<lparr>remote = \<lparr>inventory = [], next_id = 1\<rparr>, calls = []\<rparr>
   = (Fail_json ''Unable to load ssh_pub_key'',
      \<lparr>remote = \<lparr>inventory = [], next_id = 1\<rparr>, calls = [All_ssh_keys]\<rparr>)"
proof -
  have a: "api_token
      \<lparr>p_state = ''present'', p_api_token = None, p_name = Some ''deploy'',
       p_id = None, p_ssh_pub_key = Some ''ssh-rsa AAAA''\<rparr> Map.empty
    = Inl ''Unable to load DO_API_TOKEN''"
    by (simp add: api_token_def environ_token_def)
  have b: "api_token
      \<lparr>p_state = ''present'', p_api_token = Some ''T'', p_name = None,
       p_id = Some 3, p_ssh_pub_key = Some ''ssh-rsa AAAA''\<rparr> Map.empty = Inr ''T'' \<and>
    p_name
      \<lparr>p_state = ''present'', p_api_token = Some ''T'', p_name = None,
       p_id = Some 3, p_ssh_pub_key = Some ''ssh-rsa AAAA''\<rparr> = None"
    by (simp add: api_token_def)
  have c: "p_state
      \<lparr>p_state = ''present'', p_api_token = Some ''T'', p_name = Some ''deploy'',
       p_id = None, p_ssh_pub_key = None\<rparr> = ''present'' \<and>
    api_token
      \<lparr>p_state = ''present'', p_api_token = Some ''T'', p_name = Some ''deploy'',
       p_id = None, p_ssh_pub_key = None\<rparr> Map.empty = Inr ''T'' \<and>
    p_name
      \<lparr>p_state = ''present'', p_api_token = Some ''T'', p_name = Some ''deploy'',
       p_id = None, p_ssh_pub_key = None\<rparr> = Some ''deploy'' \<and>
    p_ssh_pub_key
      \<lparr>p_state = ''present'', p_api_token = Some ''T'', p_name = Some ''deploy'',
       p_id = None, p_ssh_pub_key = None\<rparr> = None \<and>
    all_ssh_keys mem_manager ''T''
      (remote \<lparr>remote = \<lparr>inventory = [], next_id = 1\<rparr>, calls = []\<rparr>) = Inr [] \<and>
    (\<forall>k\<in>set []. key_name k \<noteq> ''deploy'')"
    by (simp add: api_token_def mem_manager_def)
  note a' = fail_json_before_mutation [THEN conjunct1, THEN mp, OF a]
  note b' = fail_json_before_mutation [THEN conjunct2, THEN conjunct1, THEN mp, OF b]
  note c' = fail_json_before_mutation
    [THEN conjunct2, THEN conjunct2, THEN conjunct1, THEN mp, OF c]
  show ?thesis
    by (simp add: a' b' c')
qed

text \<open>
  Claim C2 as stated has no remote call before a failure of configuration. A create
  request without \<^verbatim>\<open>ssh_pub_key\<close> fails after the keys have been listed.
\<close>

theorem fail_json_after_listing_counterexample:
  "core mem_manager
     \<lparr>p_state = ''present'', p_api_token = Some ''T'', p_name = Some ''deploy'',
      p_id = None, p_ssh_pub_key = None\<rparr>
     Map.empty
     \<lparr>remote = \<lparr>inventory = [\<lparr>key_id = 1, key_name = ''backup'', key_pub = ''A''\<rparr>],
                next_id = 2\<rparr>, calls = []\<rparr>
   = (Fail_json ''Unable to load ssh_pub_key'',
      \<lparr>remote = \<lparr>inventory = [\<lparr>key_id = 1, key_name = ''backup'', key_pub = ''A''\<rparr>],
                 next_id = 2\<rparr>, calls = [All_ssh_keys]\<rparr>)"
  by (simp add: run_defs)

text \<open>
  Claim C3, as the code has it: \<^verbatim>\<open>core\<close> requires the \<^verbatim>\<open>name\<close> parameter to be
  supplied. When it is absent the run ends in \<^verbatim>\<open>fail_json\<close> (for the credential
  when that does not resolve, for the name otherwise) and no call is sent.
\<close>

theorem name_absent_fails:
  "p_name ps = None \<Longrightarrow>
   core m ps env w =
     (Fail_json (case api_token ps env of
                   Inl msg \<Rightarrow> msg
                 | Inr tok \<Rightarrow> ''Unable to load name''), w)"
  by (simp add: core_def getkeyordie_def str_param_def split: sum.splits)

text \<open>A request with an identifier and no name.\<close>

theorem name_absent_fails_witness:
  "core mem_manager
     \<lparr>p_state = ''absent'', p_api_token = Some ''T'', p_name = None,
      p_id = Some 7, p_ssh_pub_key = None\<rparr>
     Map.empty
     \<lparr>remote = \<lparr>inventory = [\<lparr>key_id = 7, key_name = ''deploy'', key_pub = ''A''\<rparr>],
                next_id = 8\<rparr>, calls = []\<rparr>
   = (Fail_json ''Unable to load name'',
      \<lparr>remote = \<lparr>inventory = [\<lparr>key_id = 7, key_name = ''deploy'', key_pub = ''A''\<rparr>],
                 next_id = 8\<rparr>, calls = []\<rparr>)"
  using name_absent_fails
    [of "\<lparr>p_state = ''absent'', p_api_token = Some ''T'', p_name = None,
          p_id = Some 7, p_ssh_pub_key = None\<rparr>"
        mem_manager Map.empty
        "\<lparr>remote = \<lparr>inventory = [\<lparr>key_id = 7, key_name = ''deploy'', key_pub = ''A''\<rparr>],
                   next_id = 8\<rparr>, calls = []\<rparr>"]
  by (simp add: api_token_def)

text \<open>
  Claim C3 as stated has an empty name rejected. \<^verbatim>\<open>getkeyordie\<close> tests for \<^verbatim>\<open>None\<close>
  only: with the empty string as name, \<^verbatim>\<open>SSH.find\<close> answers \<^verbatim>\<open>False\<close> without listing
  and a key with the empty name is created.
\<close>

theorem empty_name_creates_counterexample:
  "core mem_manager
     \<lparr>p_state = ''present'', p_api_token = Some ''T'', p_name = Some [],
      p_id = None, p_ssh_pub_key = Some ''ssh-rsa AAAA''\<rparr>
     Map.empty \<lparr>remote = \<lparr>inventory = [], next_id = 1\<rparr>, calls = []\<rparr>
   = (Exit_json True (Some \<lparr>key_id = 1, key_name = [], key_pub = ''ssh-rsa AAAA''\<rparr>) None,
      \<lparr>remote = \<lparr>inventory = [\<lparr>key_id = 1, key_name = [], key_pub = ''ssh-rsa AAAA''\<rparr>],
                 next_id = 2\<rparr>,
       calls = [New_ssh_key [] ''ssh-rsa AAAA'']\<rparr>)"
  by (simp add: run_defs)

subsection \<open>State present\<close>

text \<open>
  Claim C4, as the code has it: for a request with state \<^verbatim>\<open>present\<close> and a name that
  is not empty, when a key with that name is among the listed keys, the run ends with
  \<^verbatim>\<open>changed=False\<close> and the first listed key of that name, whatever \<^verbatim>\<open>ssh_pub_key\<close>
  the request carries; the listing is the only call sent, so nothing is created,
  destroyed or updated.
\<close>

theorem present_existing_unchanged:
  assumes "p_state ps = ''present''" "api_token ps env = Inr tok" "p_name ps = Some n" "n \<noteq> []"
    and "all_ssh_keys m tok (remote w) = Inr keys"
    and "i < length keys" "key_name (keys ! i) = n" "\<forall>j<i. key_name (keys ! j) \<noteq> n"
  shows "core m (ps\<lparr>p_ssh_pub_key := pub\<rparr>) env w =
           (Exit_json False (Some (keys ! i)) None, w\<lparr>calls := calls w @ [All_ssh_keys]\<rparr>)"
proof -
  have s: "scan n keys = Some (keys ! i)"
    using assms(6-8) by (rule scan_at_first)
  have t: "api_token (ps\<lparr>p_ssh_pub_key := pub\<rparr>) env = Inr tok"
    using assms(2) by (simp add: api_token_def)
  show ?thesis
    using assms(1,3,4,5) s t
    by (simp add: core_present [where tok = tok and n = n] find_ssh_listed)
qed

text \<open>
  Two keys named \<^verbatim>\<open>deploy\<close> after one that is not, and a request that carries other key
  material: the first of the two is returned as it is.
\<close>

theorem present_existing_unchanged_witness:
  "core mem_manager
     \<lparr>p_state = ''present'', p_api_token = Some ''T'', p_name = Some ''deploy'',
      p_id = None, p_ssh_pub_key = Some ''ssh-rsa ZZZZ''\<rparr>
     Map.empty
     \<lparr>remote = \<lparr>inventory = [\<lparr>key_id = 1, key_name = ''backup'', key_pub = ''A''\<rparr>,
                             \<lparr>key_id = 2, key_name = ''deploy'', key_pub = ''B''\<rparr>,
                             \<lparr>key_id = 3, key_name = ''deploy'', key_pub = ''C''\<rparr>],
                next_id = 4\<rparr>, calls = []\<rparr>
   = (Exit_json False (Some \<lparr>key_id = 2, key_name = ''deploy'', key_pub = ''B''\<rparr>) None,
      \<lparr>remote = \<lparr>inventory = [\<lparr>key_id = 1, key_name = ''backup'', key_pub = ''A''\<rparr>,
                              \<lparr>key_id = 2, key_name = ''deploy'', key_pub = ''B''\<rparr>,
                              \<lparr>key_id = 3, key_name = ''deploy'', key_pub = ''C''\<rparr>],
                 next_id = 4\<rparr>, calls = [All_ssh_keys]\<rparr>)"
  using present_existing_unchanged
    [of "\<lparr>p_state = ''present'', p_api_token = Some ''T'', p_name = Some ''deploy'',
          p_id = None, p_ssh_pub_key = None\<rparr>"
        Map.empty "''T''" "''deploy''" mem_manager
        "\<lparr>remote = \<lparr>inventory = [\<lparr>key_id = 1, key_name = ''backup'', key_pub = ''A''\<rparr>,
                                \<lparr>key_id = 2, key_name = ''deploy'', key_pub = ''B''\<rparr>,
                                \<lparr>key_id = 3, key_name = ''deploy'', key_pub = ''C''\<rparr>],
                   next_id = 4\<rparr>, calls = []\<rparr>"
        "[\<lparr>key_id = 1, key_name = ''backup'', key_pub = ''A''\<rparr>,
          \<lparr>key_id = 2, key_name = ''deploy'', key_pub = ''B''\<rparr>,
          \<lparr>key_id = 3, key_name = ''deploy'', key_pub = ''C''\<rparr>]"
        1 "Some ''ssh-rsa ZZZZ''"]
  by (simp add: api_token_def mem_manager_def)

text \<open>
  Claim C4 as stated covers every requested name. With the empty string as name
  \<^verbatim>\<open>SSH.find\<close> answers \<^verbatim>\<open>False\<close> without listing, so a key of the account that bears the
  empty name is not matched: a second one is created and the run ends with
  \<^verbatim>\<open>changed=True\<close>.
\<close>

theorem present_empty_name_counterexample:
  "core mem_manager
     \<lparr>p_state = ''present'', p_api_token = Some ''T'', p_name = Some [],
      p_id = None, p_ssh_pub_key = Some ''ssh-rsa NEW''\<rparr>
     Map.empty
     \<lparr>remote = \<lparr>inventory = [\<lparr>key_id = 7, key_name = [], key_pub = ''ssh-rsa OLD''\<rparr>],
                next_id = 8\<rparr>, calls = []\<rparr>
   = (Exit_json True (Some \<lparr>key_id = 8, key_name = [], key_pub = ''ssh-rsa NEW''\<rparr>) None,
      \<lparr>remote = \<lparr>inventory = [\<lparr>key_id = 7, key_name = [], key_pub = ''ssh-rsa OLD''\<rparr>,
                              \<lparr>key_id = 8, key_name = [], key_pub = ''ssh-rsa NEW''\<rparr>],
                 next_id = 9\<rparr>,
       calls = [New_ssh_key [] ''ssh-rsa NEW'']\<rparr>)"
  by (simp add: run_defs)




text \<open>
  Claim C6, as the code has it: for a name that is not empty and that no listed key
  bears, a request with state \<^verbatim>\<open>present\<close>, that name and an \<^verbatim>\<open>ssh_pub_key\<close>, the
  credential resolving, is run twice in succession. When the provider answers the
  create call with a key that bears the requested name, and then lists the keys it
  listed before together with that key, the first run ends with \<^verbatim>\<open>changed=True\<close> and
  the created key, and the second with \<^verbatim>\<open>changed=False\<close> and that same key.
\<close>

theorem present_twice:
  assumes "p_state ps = ''present''" "api_token ps env = Inr tok" "p_name ps = Some n" "n \<noteq> []"
    and "p_ssh_pub_key ps = Some pub"
    and "all_ssh_keys m tok (remote w) = Inr keys" "\<forall>k\<in>set keys. key_name k \<noteq> n"
    and "new_ssh_key m tok n pub (remote w) = Inr (key, r')" "key_name key = n"
    and "all_ssh_keys m tok r' = Inr keys'" "set keys' = insert key (set keys)"
  shows "fst (core m ps env w) = Exit_json True (Some key) None \<and>
         fst (core m ps env (snd (core m ps env w))) = Exit_json False (Some key) None"
proof -
  have s: "scan n keys = None" using assms(7) by (simp add: scan_None_iff)
  have c: "core m ps env w =
           (Exit_json True (Some key) None,
            \<lparr>remote = r', calls = calls w @ [All_ssh_keys, New_ssh_key n pub]\<rparr>)"
    using assms s by (simp add: core_present find_ssh_listed add_def)
  have "scan n keys' \<noteq> None"
    using assms(9,11) by (auto simp: scan_None_iff)
  then obtain k where k: "scan n keys' = Some k" by blast
  from scan_Some[OF k] assms(7,11) have "k = key" by auto
  with k have s': "scan n keys' = Some key" by simp
  have "fst (core m ps env \<lparr>remote = r', calls = calls w @ [All_ssh_keys, New_ssh_key n pub]\<rparr>)
        = Exit_json False (Some key) None"
    using assms(1-4,10) s' by (simp add: core_present find_ssh_listed)
  with c show ?thesis by simp
qed

text \<open>The request \<^verbatim>\<open>deploy\<close> twice, starting from an empty account.\<close>

theorem present_twice_witness:
  "fst (core mem_manager
     \<lparr>p_state = ''present'', p_api_token = Some ''T'', p_name = Some ''deploy'',
      p_id = None, p_ssh_pub_key = Some ''ssh-rsa AAAA''\<rparr>
     Map.empty \<lparr>remote = \<lparr>inventory = [], next_id = 1\<rparr>, calls = []\<rparr>)
   = Exit_json True (Some \<lparr>key_id = 1, key_name = ''deploy'', key_pub = ''ssh-rsa AAAA''\<rparr>) None \<and>
   fst (core mem_manager
     \<lparr>p_state = ''present'', p_api_token = Some ''T'', p_name = Some ''deploy'',
      p_id = None, p_ssh_pub_key = Some ''ssh-rsa AAAA''\<rparr>
     Map.empty
     (snd (core mem_manager
        \<lparr>p_state = ''present'', p_api_token = Some ''T'', p_name = Some ''deploy'',
         p_id = None, p_ssh_pub_key = Some ''ssh-rsa AAAA''\<rparr>
        Map.empty \<lparr>remote = \<lparr>inventory = [], next_id = 1\<rparr>, calls = []\<rparr>)))
   = Exit_json False (Some \<lparr>key_id = 1, key_name = ''deploy'', key_pub = ''ssh-rsa AAAA''\<rparr>) None"
proof -
  have h: "new_ssh_key mem_manager ''T'' ''deploy'' ''ssh-rsa AAAA''
      (remote \<lparr>remote = \<lparr>inventory = [], next_id = 1\<rparr>, calls = []\<rparr>)
    = Inr (\<lparr>key_id = 1, key_name = ''deploy'', key_pub = ''ssh-rsa AAAA''\<rparr>,
           \<lparr>inventory = [\<lparr>key_id = 1, key_name = ''deploy'', key_pub = ''ssh-rsa AAAA''\<rparr>],
            next_id = 2\<rparr>)"
    by (simp add: mem_manager_def)
  have l: "all_ssh_keys mem_manager ''T''
      \<lparr>inventory = [\<lparr>key_id = 1, key_name = ''deploy'', key_pub = ''ssh-rsa AAAA''\<rparr>],
       next_id = 2\<rparr>
    = Inr [\<lparr>key_id = 1, key_name = ''deploy'', key_pub = ''ssh-rsa AAAA''\<rparr>]"
    by (simp add: mem_manager_def)
  from present_twice
    [of "\<lparr>p_state = ''present'', p_api_token = Some ''T'', p_name = Some ''deploy'',
          p_id = None, p_ssh_pub_key = Some ''ssh-rsa AAAA''\<rparr>"
        Map.empty "''T''" "''deploy''" "''ssh-rsa AAAA''" mem_manager _ "[]",
     OF _ _ _ _ _ _ _ h _ l]
  show ?thesis
    by (simp add: api_token_def mem_manager_def)
qed

text \<open>
  Claim C6 as stated covers every name and every provider. With the empty string as
  name nothing is ever matched: the second run creates a second key and ends with
  \<^verbatim>\<open>changed=True\<close> again. And when the created key does not bear the requested name (a
  provider that stores the name without its leading spaces, asked for \<^verbatim>\<open>deploy\<close> with
  a space in front), the second run matches nothing either, though the account then
  holds the former keys and the created one: it creates again and ends with
  \<^verbatim>\<open>changed=True\<close>.
\<close>

theorem present_twice_empty_name_counterexample:
  "fst (core mem_manager
     \<lparr>p_state = ''present'', p_api_token = Some ''T'', p_name = Some [],
      p_id = None, p_ssh_pub_key = Some ''ssh-rsa AAAA''\<rparr>
     Map.empty \<lparr>remote = \<lparr>inventory = [], next_id = 1\<rparr>, calls = []\<rparr>)
   = Exit_json True (Some \<lparr>key_id = 1, key_name = [], key_pub = ''ssh-rsa AAAA''\<rparr>) None \<and>
   fst (core mem_manager
     \<lparr>p_state = ''present'', p_api_token = Some ''T'', p_name = Some [],
      p_id = None, p_ssh_pub_key = Some ''ssh-rsa AAAA''\<rparr>
     Map.empty
     (snd (core mem_manager
        \<lparr>p_state = ''present'', p_api_token = Some ''T'', p_name = Some [],
         p_id = None, p_ssh_pub_key = Some ''ssh-rsa AAAA''\<rparr>
        Map.empty \<lparr>remote = \<lparr>inventory = [], next_id = 1\<rparr>, calls = []\<rparr>)))
   = Exit_json True (Some \<lparr>key_id = 2, key_name = [], key_pub = ''ssh-rsa AAAA''\<rparr>) None \<and>
   core strip_manager
     \<lparr>p_state = ''present'', p_api_token = Some ''T'', p_name = Some '' deploy'',
      p_id = None, p_ssh_pub_key = Some ''ssh-rsa AAAA''\<rparr>
     Map.empty \<lparr>remote = \<lparr>inventory = [], next_id = 1\<rparr>, calls = []\<rparr>
   = (Exit_json True (Some \<lparr>key_id = 1, key_name = ''deploy'', key_pub = ''ssh-rsa AAAA''\<rparr>) None,
      \<lparr>remote = \<lparr>inventory = [\<lparr>key_id = 1, key_name = ''deploy'', key_pub = ''ssh-rsa AAAA''\<rparr>],
                 next_id = 2\<rparr>,
       calls = [All_ssh_keys, New_ssh_key '' deploy'' ''ssh-rsa AAAA'']\<rparr>) \<and>
   all_ssh_keys strip_manager ''T''
     \<lparr>inventory = [\<lparr>key_id = 1, key_name = ''deploy'', key_pub = ''ssh-rsa AAAA''\<rparr>],
      next_id = 2\<rparr>
   = Inr [\<lparr>key_id = 1, key_name = ''deploy'', key_pub = ''ssh-rsa AAAA''\<rparr>] \<and>
   fst (core strip_manager
     \<lparr>p_state = ''present'', p_api_token = Some ''T'', p_name = Some '' deploy'',
      p_id = None, p_ssh_pub_key = Some ''ssh-rsa AAAA''\<rparr>
     Map.empty
     \<lparr>remote = \<lparr>inventory = [\<lparr>key_id = 1, key_name = ''deploy'', key_pub = ''ssh-rsa AAAA''\<rparr>],
                next_id = 2\<rparr>,
      calls = [All_ssh_keys, New_ssh_key '' deploy'' ''ssh-rsa AAAA'']\<rparr>)
   = Exit_json True (Some \<lparr>key_id = 2, key_name = ''deploy'', key_pub = ''ssh-rsa AAAA''\<rparr>) None"
  by (simp add: run_defs strip_manager_def)

subsection \<open>State absent\<close>

text \<open>
  Claim C7, as the code has it: for a request with state \<^verbatim>\<open>absent\<close> and a name that is
  not empty, when a key with that name is among the listed keys, exactly one destroy
  call is sent, with the identifier of the first listed key of that name, and the run
  ends with \<^verbatim>\<open>changed=True\<close>. The provider then listing the former keys without those
  of that identifier, the next listing has no key of that identifier; it has no key
  of the requested name when every listed key of that name had that identifier.
\<close>

theorem absent_existing_destroys:
  assumes "p_state ps = ''absent''" "api_token ps env = Inr tok" "p_name ps = Some n" "n \<noteq> []"
    and "all_ssh_keys m tok (remote w) = Inr keys"
    and "i < length keys" "key_name (keys ! i) = n" "\<forall>j<i. key_name (keys ! j) \<noteq> n"
    and "destroy_ssh_key m tok (key_id (keys ! i)) (remote w) = Inr r'"
    and "all_ssh_keys m tok r' = Inr keys'"
    and "set keys' = set (filter (\<lambda>k. key_id k \<noteq> key_id (keys ! i)) keys)"
  shows "core m ps env w =
           (Exit_json True None None,
            \<lparr>remote = r', calls = calls w @ [All_ssh_keys, Destroy_ssh_key (key_id (keys ! i))]\<rparr>) \<and>
         (\<forall>k\<in>set keys'. key_id k \<noteq> key_id (keys ! i)) \<and>
         ((\<forall>k\<in>set keys. key_name k = n \<longrightarrow> key_id k = key_id (keys ! i)) \<longrightarrow>
          (\<forall>k\<in>set keys'. key_name k \<noteq> n))"
proof -
  have s: "scan n keys = Some (keys ! i)"
    using assms(6-8) by (rule scan_at_first)
  have "core m ps env w =
           (Exit_json True None None,
            \<lparr>remote = r', calls = calls w @ [All_ssh_keys, Destroy_ssh_key (key_id (keys ! i))]\<rparr>)"
    using assms(1-5,9) s by (simp add: core_absent find_ssh_listed destroy_def)
  then show ?thesis using assms(11) by auto
qed

text \<open>The request to remove \<^verbatim>\<open>deploy\<close>, the only key of that name, listed second.\<close>

theorem absent_existing_destroys_witness:
  "core mem_manager
     \<lparr>p_state = ''absent'', p_api_token = Some ''T'', p_name = Some ''deploy'',
      p_id = None, p_ssh_pub_key = None\<rparr>
     Map.empty
     \<lparr>remote = \<lparr>inventory = [\<lparr>key_id = 1, key_name = ''backup'', key_pub = ''A''\<rparr>,
                             \<lparr>key_id = 2, key_name = ''deploy'', key_pub = ''B''\<rparr>],
                next_id = 3\<rparr>, calls = []\<rparr>
   = (Exit_json True None None,
      \<lparr>remote = \<lparr>inventory = [\<lparr>key_id = 1, key_name = ''backup'', key_pub = ''A''\<rparr>],
                 next_id = 3\<rparr>,
       calls = [All_ssh_keys, Destroy_ssh_key 2]\<rparr>) \<and>
   all_ssh_keys mem_manager ''T''
     \<lparr>inventory = [\<lparr>key_id = 1, key_name = ''backup'', key_pub = ''A''\<rparr>], next_id = 3\<rparr>
   = Inr [\<lparr>key_id = 1, key_name = ''backup'', key_pub = ''A''\<rparr>]"
proof -
  have d: "destroy_ssh_key mem_manager ''T''
      (key_id ([\<lparr>key_id = 1, key_name = ''backup'', key_pub = ''A''\<rparr>,
                \<lparr>key_id = 2, key_name = ''deploy'', key_pub = ''B''\<rparr>] ! 1))
      (remote \<lparr>remote = \<lparr>inventory = [\<lparr>key_id = 1, key_name = ''backup'', key_pub = ''A''\<rparr>,
                                     \<lparr>key_id = 2, key_name = ''deploy'', key_pub = ''B''\<rparr>],
                        next_id = 3\<rparr>, calls = []\<rparr>)
    = Inr \<lparr>inventory = [\<lparr>key_id = 1, key_name = ''backup'', key_pub = ''A''\<rparr>], next_id = 3\<rparr>"
    by (simp add: mem_manager_def)
  have l: "all_ssh_keys mem_manager ''T''
      \<lparr>inventory = [\<lparr>key_id = 1, key_name = ''backup'', key_pub = ''A''\<rparr>], next_id = 3\<rparr>
    = Inr [\<lparr>key_id = 1, key_name = ''backup'', key_pub = ''A''\<rparr>]"
    by (simp add: mem_manager_def)
  from absent_existing_destroys
    [of "\<lparr>p_state = ''absent'', p_api_token = Some ''T'', p_name = Some ''deploy'',
          p_id = None, p_ssh_pub_key = None\<rparr>"
        Map.empty "''T''" "''deploy''" mem_manager _
        "[\<lparr>key_id = 1, key_name = ''backup'', key_pub = ''A''\<rparr>,
          \<lparr>key_id = 2, key_name = ''deploy'', key_pub = ''B''\<rparr>]" 1,
     OF _ _ _ _ _ _ _ _ d l]
  show ?thesis
    by (simp add: api_token_def mem_manager_def)
qed

text \<open>
  Claim C7 as stated has no key of the requested name left in the next listing. Only
  the first listed key of that name is destroyed: of two keys named \<^verbatim>\<open>deploy\<close> the
  second is still listed afterwards. And with the empty string as name nothing is
  matched, so a key that bears the empty name is reported as not found and stays.
\<close>

theorem absent_duplicate_name_counterexample:
  "core mem_manager
     \<lparr>p_state = ''absent'', p_api_token = Some ''T'', p_name = Some ''deploy'',
      p_id = None, p_ssh_pub_key = None\<rparr>
     Map.empty
     \<lparr>remote = \<lparr>inventory = [\<lparr>key_id = 1, key_name = ''deploy'', key_pub = ''A''\<rparr>,
                             \<lparr>key_id = 2, key_name = ''deploy'', key_pub = ''B''\<rparr>],
                next_id = 3\<rparr>, calls = []\<rparr>
   = (Exit_json True None None,
      \<lparr>remote = \<lparr>inventory = [\<lparr>key_id = 2, key_name = ''deploy'', key_pub = ''B''\<rparr>],
                 next_id = 3\<rparr>,
       calls = [All_ssh_keys, Destroy_ssh_key 1]\<rparr>) \<and>
   all_ssh_keys mem_manager ''T''
     \<lparr>inventory = [\<lparr>key_id = 2, key_name = ''deploy'', key_pub = ''B''\<rparr>], next_id = 3\<rparr>
   = Inr [\<lparr>key_id = 2, key_name = ''deploy'', key_pub = ''B''\<rparr>] \<and>
   core mem_manager
     \<lparr>p_state = ''absent'', p_api_token = Some ''T'', p_name = Some [],
      p_id = None, p_ssh_pub_key = None\<rparr>
     Map.empty
     \<lparr>remote = \<lparr>inventory = [\<lparr>key_id = 1, key_name = [], key_pub = ''A''\<rparr>],
                next_id = 2\<rparr>, calls = []\<rparr>
   = (Exit_json False None (Some ''SSH key with the name of  is not found.''),
      \<lparr>remote = \<lparr>inventory = [\<lparr>key_id = 1, key_name = [], key_pub = ''A''\<rparr>],
                 next_id = 2\<rparr>, calls = []\<rparr>)"
  by (simp add: run_defs)

text \<open>
  Claim C8: for a request with state \<^verbatim>\<open>absent\<close>, when no listed key has the requested
  name, the run ends with \<^verbatim>\<open>changed=False\<close> and the message that the key is not found;
  it sends no call but the listing, so the account is as it was, and the same request
  run again ends with \<^verbatim>\<open>changed=False\<close> and the same message.
\<close>

theorem absent_missing_unchanged:
  assumes "p_state ps = ''absent''" "api_token ps env = Inr tok" "p_name ps = Some n"
    and "all_ssh_keys m tok (remote w) = Inr keys" "\<forall>k\<in>set keys. key_name k \<noteq> n"
  shows "core m ps env w =
           (Exit_json False None (Some (''SSH key with the name of '' @ n @ '' is not found.'')),
            w\<lparr>calls := calls w @ (if n = [] then [] else [All_ssh_keys])\<rparr>) \<and>
         fst (core m ps env (snd (core m ps env w))) =
           Exit_json False None (Some (''SSH key with the name of '' @ n @ '' is not found.''))"
proof -
  have s: "scan n keys = None" using assms(5) by (simp add: scan_None_iff)
  show ?thesis
  proof (cases "n = []")
    case True
    then show ?thesis using assms(1-3) by (simp add: core_absent find_ssh_empty)
  next
    case False
    then show ?thesis using assms s by (simp add: core_absent find_ssh_listed)
  qed
qed

text \<open>The request to remove \<^verbatim>\<open>deploy\<close> from an account that has one other key.\<close>

theorem absent_missing_unchanged_witness:
  "core mem_manager
     \<lparr>p_state = ''absent'', p_api_token = Some ''T'', p_name = Some ''deploy'',
      p_id = None, p_ssh_pub_key = None\<rparr>
     Map.empty
     \<lparr>remote = \<lparr>inventory = [\<lparr>key_id = 1, key_name = ''backup'', key_pub = ''A''\<rparr>],
                next_id = 2\<rparr>, calls = []\<rparr>
   = (Exit_json False None (Some ''SSH key with the name of deploy is not found.''),
      \<lparr>remote = \<lparr>inventory = [\<lparr>key_id = 1, key_name = ''backup'', key_pub = ''A''\<rparr>],
                 next_id = 2\<rparr>, calls = [All_ssh_keys]\<rparr>) \<and>
   fst (core mem_manager
     \<lparr>p_state = ''absent'', p_api_token = Some ''T'', p_name = Some ''deploy'',
      p_id = None, p_ssh_pub_key = None\<rparr>
     Map.empty
     \<lparr>remote = \<lparr>inventory = [\<lparr>key_id = 1, key_name = ''backup'', key_pub = ''A''\<rparr>],
                next_id = 2\<rparr>, calls = [All_ssh_keys]\<rparr>)
   = Exit_json False None (Some ''SSH key with the name of deploy is not found.'')"
proof -
  have t: "api_token
      \<lparr>p_state = ''absent'', p_api_token = Some ''T'', p_name = Some ''deploy'',
       p_id = None, p_ssh_pub_key = None\<rparr> Map.empty = Inr ''T''"
    by (simp add: api_token_def)
  have l: "all_ssh_keys mem_manager ''T''
      (remote \<lparr>remote = \<lparr>inventory = [\<lparr>key_id = 1, key_name = ''backup'', key_pub = ''A''\<rparr>],
                        next_id = 2\<rparr>, calls = []\<rparr>)
    = Inr [\<lparr>key_id = 1, key_name = ''backup'', key_pub = ''A''\<rparr>]"
    by (simp add: mem_manager_def)
  from absent_missing_unchanged [OF _ t _ l, of "''deploy''"]
  show ?thesis
    by (simp cong: conj_cong)
qed

end
